theory Spec2Isabelle
  imports Main "HOL-Library.Word"
begin

section \<open>Strings and paths\<close>

text \<open>
  Python strings are modelled as \<^typ>\<open>string\<close>. The handler lowercases the suffix
  only to compare it with four ASCII literals; the only characters whose Python
  \<^verbatim>\<open>lower()\<close> is one of the ASCII letters of those literals are the ASCII capitals,
  so lowercasing the range A-Z is all the comparison can observe.
\<close>

definition lower_char :: "char \<Rightarrow> char" where
  "lower_char c =
     (case map_of (zip ''ABCDEFGHIJKLMNOPQRSTUVWXYZ'' ''abcdefghijklmnopqrstuvwxyz'') c of
        None \<Rightarrow> c
      | Some l \<Rightarrow> l)"

definition lower :: "string \<Rightarrow> string" where
  "lower s = map lower_char s"

text \<open>\<^verbatim>\<open>sep.join(xs)\<close>\<close>

fun join :: "string \<Rightarrow> string list \<Rightarrow> string" where
  "join sep [] = []"
| "join sep [x] = x"
| "join sep (x # y # ys) = x @ sep @ join sep (y # ys)"

text \<open>\<^verbatim>\<open>s.split(c)\<close> for a one-character separator.\<close>

fun split_sep :: "char \<Rightarrow> string \<Rightarrow> string list" where
  "split_sep c [] = [[]]"
| "split_sep c (x # xs) =
     (if x = c then [] # split_sep c xs
      else (case split_sep c xs of [] \<Rightarrow> [[x]] | p # ps \<Rightarrow> (x # p) # ps))"

text \<open>
  \<^verbatim>\<open>Path(s).name\<close> on a POSIX path: the components are the pieces between
  slashes, without the empty ones and the single dots; the name is the last of them, or
  the empty string when there is none.
\<close>

definition path_parts :: "string \<Rightarrow> string list" where
  "path_parts s = filter (\<lambda>p. p \<noteq> [] \<and> p \<noteq> ''.'') (split_sep CHR ''/'' s)"

definition path_name :: "string \<Rightarrow> string" where
  "path_name s = (case path_parts s of [] \<Rightarrow> [] | p # ps \<Rightarrow> last (p # ps))"

text \<open>\<^verbatim>\<open>s.rfind(c)\<close>: the index of the last occurrence, \<open>-1\<close> when there is none.\<close>

fun rfind_from :: "char \<Rightarrow> string \<Rightarrow> int \<Rightarrow> int \<Rightarrow> int" where
  "rfind_from c [] i r = r"
| "rfind_from c (x # xs) i r = rfind_from c xs (i + 1) (if x = c then i else r)"

definition rfind :: "char \<Rightarrow> string \<Rightarrow> int" where
  "rfind c s = rfind_from c s 0 (- 1)"

text \<open>
  \<^verbatim>\<open>Path(s).suffix\<close>:
  \<^verbatim>\<open>
    name = self.name
    i = name.rfind('.')
    if 0 < i < len(name) - 1: return name[i:]
    else: return ''
  \<close>
\<close>

definition suffix :: "string \<Rightarrow> string" where
  "suffix s =
     (let name = path_name s; i = rfind CHR ''.'' name
      in if 0 < i \<and> i < int (length name) - 1 then drop (nat i) name else [])"

text \<open>
  \<^verbatim>\<open>d / s\<close> for a path \<open>d\<close> and a string \<open>s\<close> that is empty, absolute, or one
  relative component: an absolute right operand replaces the left one, an empty one leaves
  it as it is.
\<close>

definition joinpath :: "string \<Rightarrow> string \<Rightarrow> string" where
  "joinpath d s =
     (if s = [] then d else if hd s = CHR ''/'' then s else d @ ''/'' @ s)"


section \<open>Values, exceptions, effects\<close>

text \<open>
  The values the handler passes through without inspecting them. A float is carried as
  its 64 bits: no arithmetic is done on it.
\<close>

datatype pyval = PStr string | PInt int | PFloat "64 word" | PNone

datatype exn =
    HTTPException nat string
  | KeyError string
  | AttributeError string
  | TypeError string
  | PermissionError string
  | FileNotFoundError string
  | RuntimeError string

text \<open>The calls with an effect outside the handler, in the order they are made.\<close>

datatype event =
    Ev_open string
  | Ev_write string string
  | Ev_remove string
  | Ev_load string
  | Ev_transcribe string

fun is_fs_event :: "event \<Rightarrow> bool" where
  "is_fs_event (Ev_open p) = True"
| "is_fs_event (Ev_write p d) = True"
| "is_fs_event (Ev_remove p) = True"
| "is_fs_event (Ev_load n) = False"
| "is_fs_event (Ev_transcribe p) = False"

text \<open>
  The external speech-to-text library, of which the service uses three things:
  \<^verbatim>\<open>whisper.load_model(name)\<close>, \<^verbatim>\<open>model.transcribe(path)\<close>, which reads the
  file at the path and returns a dictionary, and the attribute \<^verbatim>\<open>model.model_name\<close>
  (\<open>None\<close> when the handle has no such attribute). Each of the calls may raise.
\<close>

record 'h whisper =
  load_model :: "string \<Rightarrow> exn + 'h"
  transcribe :: "'h \<Rightarrow> (string \<rightharpoonup> string) \<Rightarrow> string \<Rightarrow> exn + (string \<rightharpoonup> pyval)"
  model_name :: "'h \<Rightarrow> pyval option"

text \<open>
  The state a request runs in: the files by path, the paths whose removal the operating
  system refuses (\<^verbatim>\<open>os.remove\<close> raises there), the module's global \<^verbatim>\<open>_model\<close>, and
  the calls made so far.
\<close>

record 'h world =
  files :: "string \<rightharpoonup> string"
  undeletable :: "string \<Rightarrow> bool"
  global_model :: "'h option"
  trace :: "event list"

record upload =
  filename :: string
  content :: string

record transcribe_response =
  transcript :: pyval
  language :: pyval
  duration :: pyval

record health_response =
  status :: string
  model :: pyval

section \<open>Filesystem calls\<close>

definition exists_path :: "'h world \<Rightarrow> string \<Rightarrow> bool" where
  "exists_path w p \<longleftrightarrow> files w p \<noteq> None"

text \<open>
  \<^verbatim>\<open>open(p, "wb")\<close> creates the file, or truncates the one that is there. The
  module creates the directory \<^verbatim>\<open>/tmp/whisper_api\<close> when it is loaded; the model takes
  it to be there and writable, so that creating and writing the file do not raise.
\<close>

definition open_wb :: "string \<Rightarrow> 'h world \<Rightarrow> 'h world" where
  "open_wb p w = w\<lparr>files := (files w)(p \<mapsto> []), trace := trace w @ [Ev_open p]\<rparr>"

text \<open>\<^verbatim>\<open>shutil.copyfileobj(src, buffer)\<close> appends all of the source to the open file.\<close>

definition copyfileobj :: "string \<Rightarrow> string \<Rightarrow> 'h world \<Rightarrow> 'h world" where
  "copyfileobj d p w =
     w\<lparr>files := (files w)(p \<mapsto> (case files w p of None \<Rightarrow> [] | Some old \<Rightarrow> old) @ d),
       trace := trace w @ [Ev_write p d]\<rparr>"

definition os_remove :: "string \<Rightarrow> 'h world \<Rightarrow> exn option \<times> 'h world" where
  "os_remove p w =
     (let w' = w\<lparr>trace := trace w @ [Ev_remove p]\<rparr>
      in if undeletable w p then (Some (PermissionError p), w')
         else if files w p = None then (Some (FileNotFoundError p), w')
         else (None, w'\<lparr>files := (files w)(p := None)\<rparr>))"

section \<open>The service\<close>

definition temp_dir :: string where
  "temp_dir = ''/tmp/whisper_api''"

definition valid_formats :: "string list" where
  "valid_formats = [''.mp3'', ''.wav'', ''.m4a'', ''.webm'']"

text \<open>
  \<^verbatim>\<open>
  def get_model():
      global _model
      if _model is None:
          import whisper
          _model = whisper.load_model("base")
      return _model
  \<close>
\<close>

definition get_model :: "'h whisper \<Rightarrow> 'h world \<Rightarrow> (exn + 'h) \<times> 'h world" where
  "get_model cap w =
     (case global_model w of
        Some h \<Rightarrow> (Inr h, w)
      | None \<Rightarrow>
          (let w' = w\<lparr>trace := trace w @ [Ev_load ''base'']\<rparr>
           in case load_model cap ''base'' of
                Inl e \<Rightarrow> (Inl e, w')
              | Inr h \<Rightarrow> (Inr h, w'\<lparr>global_model := Some h\<rparr>)))"

text \<open>
  The truth value of \<^verbatim>\<open>file_path\<close>: \<^verbatim>\<open>None\<close> and the empty string are false. An
  \<^verbatim>\<open>UploadFile\<close> object is always true, so \<^verbatim>\<open>not file\<close> is \<open>file = None\<close>.
\<close>

definition truthy :: "string option \<Rightarrow> bool" where
  "truthy s = (case s of None \<Rightarrow> False | Some p \<Rightarrow> p \<noteq> [])"

text \<open>
  The first half of the \<^verbatim>\<open>try\<close> block of \<^verbatim>\<open>transcribe_audio\<close>: the branch on
  \<^verbatim>\<open>file\<close>. It returns the exception raised or \<^verbatim>\<open>audio_path\<close>, and the value of the
  variable \<^verbatim>\<open>temp_file\<close> when it ends.
\<close>

definition source_step ::
  "string \<Rightarrow> upload option \<Rightarrow> string option \<Rightarrow> 'h world
     \<Rightarrow> (exn + string) \<times> string option \<times> 'h world" where
  "source_step cand file file_path w =
     (case file of
        Some up \<Rightarrow>
          (let sfx = suffix (filename up)
           in if lower sfx \<notin> set valid_formats
              then (Inl (HTTPException 400
                      (''Unsupported file format. Supported formats: ''
                         @ join '', '' valid_formats)), None, w)
              else (let temp_file = joinpath temp_dir (cand @ sfx);
                        w1 = open_wb temp_file w;
                        w2 = copyfileobj (content up) temp_file w1
                    in (Inr temp_file, Some temp_file, w2)))
      | None \<Rightarrow>
          (case file_path of
             None \<Rightarrow> (Inl (TypeError ''stat: path should be string, not NoneType''), None, w)
           | Some p \<Rightarrow>
               if \<not> exists_path w p
               then (Inl (HTTPException 404 (''File not found: '' @ p)), None, w)
               else (Inr p, None, w)))"

text \<open>
  The second half of the \<^verbatim>\<open>try\<close> block:
  \<^verbatim>\<open>
      model = get_model()
      result = model.transcribe(audio_path)
      return {"transcript": result["text"], "language": result["language"],
              "duration": result.get("duration", 0)}
  \<close>
\<close>

definition transcribe_step ::
  "'h whisper \<Rightarrow> string \<Rightarrow> 'h world \<Rightarrow> (exn + transcribe_response) \<times> 'h world" where
  "transcribe_step cap audio_path w =
     (case get_model cap w of
        (Inl e, w1) \<Rightarrow> (Inl e, w1)
      | (Inr h, w1) \<Rightarrow>
          (let w2 = w1\<lparr>trace := trace w1 @ [Ev_transcribe audio_path]\<rparr>
           in case transcribe cap h (files w2) audio_path of
                Inl e \<Rightarrow> (Inl e, w2)
              | Inr result \<Rightarrow>
                  (case result ''text'' of
                     None \<Rightarrow> (Inl (KeyError ''text''), w2)
                   | Some t \<Rightarrow>
                       (case result ''language'' of
                          None \<Rightarrow> (Inl (KeyError ''language''), w2)
                        | Some l \<Rightarrow>
                            (Inr \<lparr>transcript = t, language = l,
                                  duration = (case result ''duration'' of
                                                None \<Rightarrow> PInt 0 | Some d \<Rightarrow> d)\<rparr>, w2)))))"

text \<open>
  The \<^verbatim>\<open>finally\<close> block:
  \<^verbatim>\<open>
      if temp_file and os.path.exists(temp_file):
          os.remove(temp_file)
  \<close>
  It returns the exception it raises, if any.
\<close>

definition finally_step :: "string option \<Rightarrow> 'h world \<Rightarrow> exn option \<times> 'h world" where
  "finally_step temp_file w =
     (case temp_file of
        None \<Rightarrow> (None, w)
      | Some p \<Rightarrow> if exists_path w p then os_remove p w else (None, w))"

text \<open>
  \<^verbatim>\<open>transcribe_audio(file, file_path)\<close>. An exception raised in the \<^verbatim>\<open>finally\<close>
  block is the one that leaves the function, whatever the \<^verbatim>\<open>try\<close> block returned or
  raised.
\<close>

definition transcribe_audio ::
  "'h whisper \<Rightarrow> string \<Rightarrow> upload option \<Rightarrow> string option \<Rightarrow> 'h world
     \<Rightarrow> (exn + transcribe_response) \<times> 'h world" where
  "transcribe_audio cap cand file file_path w =
     (if file = None \<and> \<not> truthy file_path
      then (Inl (HTTPException 400 ''No audio file provided''), w)
      else (case source_step cand file file_path w of
              (r1, temp_file, w1) \<Rightarrow>
                (case (case r1 of
                         Inl e \<Rightarrow> (Inl e, w1)
                       | Inr audio_path \<Rightarrow> transcribe_step cap audio_path w1) of
                   (r2, w2) \<Rightarrow>
                     (case finally_step temp_file w2 of
                        (c, w3) \<Rightarrow> ((case c of Some e \<Rightarrow> Inl e | None \<Rightarrow> r2), w3)))))"

text \<open>
  \<^verbatim>\<open>
  async def health_check():
      model = get_model()
      return {"status": "ok", "model": model.model_name}
  \<close>
\<close>

definition health_check :: "'h whisper \<Rightarrow> 'h world \<Rightarrow> (exn + health_response) \<times> 'h world" where
  "health_check cap w =
     (case get_model cap w of
        (Inl e, w1) \<Rightarrow> (Inl e, w1)
      | (Inr h, w1) \<Rightarrow>
          (case model_name cap h of
             None \<Rightarrow> (Inl (AttributeError ''model_name''), w1)
           | Some tag \<Rightarrow> (Inr \<lparr>status = ''ok'', model = tag\<rparr>, w1)))"

section \<open>Example inputs\<close>

text \<open>
  A library whose calls all succeed, one that also reports a duration, one whose
  transcription raises, and one that cannot load the model; a fresh
  process on an empty filesystem, one where the operating system refuses every removal,
  and one holding an audio file; an upload.
\<close>

definition example_whisper :: "nat whisper" where
  "example_whisper =
     \<lparr>load_model = (\<lambda>n. Inr 0),
      transcribe = (\<lambda>h fs p. Inr [''text'' \<mapsto> PStr ''hello'', ''language'' \<mapsto> PStr ''en'']),
      model_name = (\<lambda>h. Some (PStr ''base''))\<rparr>"

definition timed_whisper :: "nat whisper" where
  "timed_whisper =
     \<lparr>load_model = (\<lambda>n. Inr 0),
      transcribe = (\<lambda>h fs p. Inr [''text'' \<mapsto> PStr ''hello'', ''language'' \<mapsto> PStr ''en'',
                                  ''duration'' \<mapsto> PFloat 7]),
      model_name = (\<lambda>h. Some (PStr ''base''))\<rparr>"

definition failing_whisper :: "nat whisper" where
  "failing_whisper =
     \<lparr>load_model = (\<lambda>n. Inr 0),
      transcribe = (\<lambda>h fs p. Inl (RuntimeError ''decode failed'')),
      model_name = (\<lambda>h. Some (PStr ''base''))\<rparr>"

definition unloadable_whisper :: "nat whisper" where
  "unloadable_whisper =
     \<lparr>load_model = (\<lambda>n. Inl (RuntimeError ''download failed'')),
      transcribe = (\<lambda>h fs p. Inr [''text'' \<mapsto> PStr ''hello'', ''language'' \<mapsto> PStr ''en'']),
      model_name = (\<lambda>h. Some (PStr ''base''))\<rparr>"

definition example_world :: "nat world" where
  "example_world = \<lparr>files = Map.empty, undeletable = (\<lambda>p. False), global_model = None, trace = []\<rparr>"

definition locked_world :: "nat world" where
  "locked_world = \<lparr>files = Map.empty, undeletable = (\<lambda>p. True), global_model = None, trace = []\<rparr>"

definition stored_world :: "nat world" where
  "stored_world =
     \<lparr>files = [''/srv/audio/a.wav'' \<mapsto> ''RIFF''], undeletable = (\<lambda>p. False),
      global_model = None, trace = []\<rparr>"

definition example_upload :: upload where
  "example_upload = \<lparr>filename = ''clip.MP3'', content = ''RIFF''\<rparr>"

section \<open>Auxiliary facts\<close>

lemmas example_defs = example_whisper_def example_world_def example_upload_def
  failing_whisper_def locked_world_def stored_world_def timed_whisper_def unloadable_whisper_def

lemmas eval_defs = transcribe_audio_def source_step_def transcribe_step_def finally_step_def
  get_model_def health_check_def os_remove_def open_wb_def copyfileobj_def exists_path_def
  truthy_def joinpath_def temp_dir_def valid_formats_def
  suffix_def path_name_def path_parts_def rfind_def lower_def lower_char_def Let_def

subsection \<open>The path of the temporary file\<close>






subsection \<open>What each step leaves alone\<close>

lemma get_model_frame:
  "files (snd (get_model cap w)) = files w \<and> undeletable (snd (get_model cap w)) = undeletable w"
  by (simp add: get_model_def Let_def split: option.splits sum.splits)

lemma get_model_trace:
  "\<exists>evs. trace (snd (get_model cap w)) = trace w @ evs \<and> (\<forall>e\<in>set evs. e = Ev_load ''base'')"
  by (simp add: get_model_def Let_def split: option.splits sum.splits)

lemma get_model_loaded: "global_model w = Some h \<Longrightarrow> get_model cap w = (Inr h, w)"
  by (simp add: get_model_def)

lemma get_model_handle:
  "fst (get_model cap w) = (case global_model w of Some h \<Rightarrow> Inr h | None \<Rightarrow> load_model cap ''base'')"
  by (simp add: get_model_def Let_def split: option.splits sum.splits)

lemma transcribe_step_frame:
  "files (snd (transcribe_step cap p w)) = files w
     \<and> undeletable (snd (transcribe_step cap p w)) = undeletable w"
proof (cases "get_model cap w")
  case (Pair r w1)
  with get_model_frame[of cap w] have "files w1 = files w" "undeletable w1 = undeletable w"
    by simp_all
  with Pair show ?thesis
    by (simp add: transcribe_step_def Let_def split: sum.splits option.splits)
qed

lemma transcribe_step_trace:
  "\<exists>evs. trace (snd (transcribe_step cap p w)) = trace w @ evs
     \<and> (\<forall>e\<in>set evs. e = Ev_load ''base'' \<or> e = Ev_transcribe p)
     \<and> (\<forall>h. fst (get_model cap w) = Inr h \<longrightarrow> Ev_transcribe p \<in> set evs)"
proof (cases "get_model cap w")
  case (Pair r w1)
  with get_model_trace[of cap w] obtain evs where
    evs: "trace w1 = trace w @ evs" "\<forall>e\<in>set evs. e = Ev_load ''base''"
    by auto
  show ?thesis
  proof (cases r)
    case (Inl e)
    with Pair evs show ?thesis
      by (auto simp: transcribe_step_def)
  next
    case (Inr h)
    with Pair evs have "trace (snd (transcribe_step cap p w)) = trace w @ (evs @ [Ev_transcribe p])"
      by (simp add: transcribe_step_def Let_def split: sum.splits option.splits)
    moreover have "\<forall>e\<in>set (evs @ [Ev_transcribe p]). e = Ev_load ''base'' \<or> e = Ev_transcribe p"
      using evs(2) by auto
    moreover have "Ev_transcribe p \<in> set (evs @ [Ev_transcribe p])"
      by simp
    ultimately show ?thesis
      by blast
  qed
qed


lemma transcribe_step_result:
  assumes "fst (get_model cap w) = Inr h"
  shows "fst (transcribe_step cap p w)
           = (case transcribe cap h (files w) p of
                Inl e \<Rightarrow> Inl e
              | Inr result \<Rightarrow>
                  (case result ''text'' of
                     None \<Rightarrow> Inl (KeyError ''text'')
                   | Some t \<Rightarrow>
                       (case result ''language'' of
                          None \<Rightarrow> Inl (KeyError ''language'')
                        | Some l \<Rightarrow>
                            Inr \<lparr>transcript = t, language = l,
                                 duration = (case result ''duration'' of
                                               None \<Rightarrow> PInt 0 | Some d \<Rightarrow> d)\<rparr>)))"
proof -
  obtain w1 where g: "get_model cap w = (Inr h, w1)"
    using assms by (cases "get_model cap w") simp
  with get_model_frame[of cap w] have "files w1 = files w"
    by simp
  with g show ?thesis
    by (simp add: transcribe_step_def Let_def split: sum.splits option.splits)
qed

lemma transcribe_step_load_fails:
  assumes "fst (get_model cap w) = Inl e"
  shows "fst (transcribe_step cap p w) = Inl e"
proof -
  obtain w1 where "get_model cap w = (Inl e, w1)"
    using assms by (cases "get_model cap w") simp
  then show ?thesis
    by (simp add: transcribe_step_def)
qed

section \<open>The temporary file\<close>




section \<open>Requests rejected at once\<close>

text \<open>
  C2. An upload whose filename suffix, lowercased, is none of \<^verbatim>\<open>.mp3\<close>,
  \<^verbatim>\<open>.wav\<close>, \<^verbatim>\<open>.m4a\<close>, \<^verbatim>\<open>.webm\<close> is refused with status 400 and a message
  that lists these four formats, whether or not a path came with it. The state is the one
  the request started in: nothing was opened, written or removed.
\<close>

theorem unsupported_format_rejected:
  assumes "lower (suffix (filename up)) \<notin> {''.mp3'', ''.wav'', ''.m4a'', ''.webm''}"
  shows "transcribe_audio cap cand (Some up) file_path w
           = (Inl (HTTPException 400
                ''Unsupported file format. Supported formats: .mp3, .wav, .m4a, .webm''), w)"
  using assms
  by (simp add: transcribe_audio_def source_step_def finally_step_def valid_formats_def)

theorem unsupported_format_rejected_witness:
  "lower (suffix (filename \<lparr>filename = ''notes.txt'', content = ''abc''\<rparr>))
       \<notin> {''.mp3'', ''.wav'', ''.m4a'', ''.webm''}
   \<and> transcribe_audio example_whisper ''abcdefgh''
        (Some \<lparr>filename = ''notes.txt'', content = ''abc''\<rparr>) None example_world
       = (Inl (HTTPException 400
                ''Unsupported file format. Supported formats: .mp3, .wav, .m4a, .webm''),
          example_world)"
proof -
  have h: "lower (suffix (filename \<lparr>filename = ''notes.txt'', content = ''abc''\<rparr>))
       \<notin> {''.mp3'', ''.wav'', ''.m4a'', ''.webm''}"
    by (simp add: suffix_def path_name_def path_parts_def rfind_def lower_def lower_char_def)
  from h unsupported_format_rejected[OF h] show ?thesis
    by simp
qed

text \<open>
  C3. A request with neither an upload nor a path is refused with status 400 and the
  message "No audio file provided"; the state is the one it started in, so no file was
  created and no call was made.
\<close>

theorem no_source_rejected:
  "transcribe_audio cap cand None None w
     = (Inl (HTTPException 400 ''No audio file provided''), w)"
  by (simp add: transcribe_audio_def truthy_def)

text \<open>
  C4. A request with no upload and a non-empty path at which nothing exists is refused
  with status 404 and the message "File not found: " followed by the path; the
  state is the one it started in, so no temporary file was created. (An empty path string
  counts as no path and is refused as in C3.)
\<close>

theorem missing_path_rejected:
  assumes "p \<noteq> []" and "files w p = None"
  shows "transcribe_audio cap cand None (Some p) w
           = (Inl (HTTPException 404 (''File not found: '' @ p)), w)"
  using assms
  by (simp add: transcribe_audio_def truthy_def source_step_def exists_path_def finally_step_def)

theorem missing_path_rejected_witness:
  "transcribe_audio example_whisper ''abcdefgh'' None (Some ''/srv/audio/a.wav'') example_world
     = (Inl (HTTPException 404 ''File not found: /srv/audio/a.wav''), example_world)"
proof -
  have a: "''/srv/audio/a.wav'' \<noteq> []" by simp
  have b: "files example_world ''/srv/audio/a.wav'' = None"
    by (simp add: example_world_def)
  from missing_path_rejected[OF a b] show ?thesis
    by simp
qed

section \<open>Upload and path together\<close>

text \<open>
  C5, as the code has it. A request that gets past the first check has an upload or a
  non-empty path, and it may have both: the handler never refuses a request for carrying
  the two. When an upload is present the path plays no part, so the request is handled
  exactly as if the path had been left out.
\<close>

theorem upload_takes_precedence:
  "(fst (transcribe_audio cap cand file file_path w)
       \<noteq> Inl (HTTPException 400 ''No audio file provided'')
      \<longrightarrow> file \<noteq> None \<or> truthy file_path)
   \<and> transcribe_audio cap cand (Some up) file_path w = transcribe_audio cap cand (Some up) None w"
  by (simp add: transcribe_audio_def source_step_def)

theorem upload_takes_precedence_witness:
  "fst (transcribe_audio example_whisper ''abcdefgh'' None (Some ''/srv/audio/a.wav'')
          stored_world)
       \<noteq> Inl (HTTPException 400 ''No audio file provided'')
   \<and> truthy (Some ''/srv/audio/a.wav'')
   \<and> transcribe_audio example_whisper ''abcdefgh'' (Some example_upload)
        (Some ''/srv/audio/a.wav'') stored_world
       = transcribe_audio example_whisper ''abcdefgh'' (Some example_upload) None stored_world"
proof -
  have "fst (transcribe_audio example_whisper ''abcdefgh'' None (Some ''/srv/audio/a.wav'')
          stored_world)
       \<noteq> Inl (HTTPException 400 ''No audio file provided'')"
    by (simp add: example_defs eval_defs)
  with upload_takes_precedence[of example_whisper "''abcdefgh''" None
      "Some ''/srv/audio/a.wav''" stored_world example_upload]
  show ?thesis by simp
qed

text \<open>
  A request carrying both an upload and a path is transcribed from the upload.
\<close>

theorem both_sources_counterexample:
  "Some example_upload \<noteq> None \<and> truthy (Some ''/srv/audio/a.wav'')
   \<and> fst (transcribe_audio example_whisper ''abcdefgh'' (Some example_upload)
            (Some ''/srv/audio/a.wav'') example_world)
       = Inr \<lparr>transcript = PStr ''hello'', language = PStr ''en'', duration = PInt 0\<rparr>"
  by (simp add: example_defs eval_defs)

section \<open>Failures after the temporary file exists\<close>

text \<open>
  C6, as the code has it. When the transcription call raises after the temporary file
  was written, what happens next depends on the removal. If the operating system carries
  it out, the file is gone and the caller gets the transcription error. If the removal
  itself raises, the caller gets the removal error in place of the transcription error,
  and the file stays.
\<close>

theorem transcription_error_and_cleanup:
  assumes fmt: "lower (suffix (filename up)) \<in> set valid_formats"
    and gm: "fst (get_model cap w) = Inr h"
    and fail: "transcribe cap h ((files w)(joinpath temp_dir (cand @ suffix (filename up))
                 \<mapsto> content up)) (joinpath temp_dir (cand @ suffix (filename up))) = Inl e"
  shows "fst (transcribe_audio cap cand (Some up) file_path w)
           = (if undeletable w (joinpath temp_dir (cand @ suffix (filename up)))
              then Inl (PermissionError (joinpath temp_dir (cand @ suffix (filename up))))
              else Inl e)
       \<and> files (snd (transcribe_audio cap cand (Some up) file_path w))
           (joinpath temp_dir (cand @ suffix (filename up)))
           = (if undeletable w (joinpath temp_dir (cand @ suffix (filename up)))
              then Some (content up) else None)"
proof -
  define tp where "tp = joinpath temp_dir (cand @ suffix (filename up))"
  define w1 where "w1 = copyfileobj (content up) tp (open_wb tp w)"
  have src: "source_step cand (Some up) file_path w = (Inr tp, Some tp, w1)"
    using fmt by (simp add: source_step_def Let_def w1_def tp_def)
  have w1_files: "files w1 = (files w)(tp \<mapsto> content up)"
    and w1_und: "undeletable w1 = undeletable w"
    and w1_gm: "global_model w1 = global_model w"
    by (simp_all add: w1_def copyfileobj_def open_wb_def)
  have gm1: "fst (get_model cap w1) = Inr h"
    using gm by (simp add: get_model_handle w1_gm)
  obtain w1' where g: "get_model cap w1 = (Inr h, w1')"
    using gm1 by (cases "get_model cap w1") simp
  from get_model_frame[of cap w1] g w1_files w1_und
  have f1': "files w1' = (files w)(tp \<mapsto> content up)" "undeletable w1' = undeletable w"
    by simp_all
  define w2 where "w2 = w1'\<lparr>trace := trace w1' @ [Ev_transcribe tp]\<rparr>"
  have ts: "transcribe_step cap tp w1 = (Inl e, w2)"
    using g f1' fail by (simp add: transcribe_step_def Let_def w2_def tp_def)
  have w2_files: "files w2 = (files w)(tp \<mapsto> content up)" "undeletable w2 = undeletable w"
    by (simp_all add: w2_def f1')
  show ?thesis
    unfolding tp_def[symmetric]
    using w2_files
    by (simp add: transcribe_audio_def src ts finally_step_def exists_path_def os_remove_def Let_def)
qed

theorem transcription_error_and_cleanup_witness:
  "fst (transcribe_audio failing_whisper ''abcdefgh'' (Some example_upload) None example_world)
     = Inl (RuntimeError ''decode failed'')
   \<and> files (snd (transcribe_audio failing_whisper ''abcdefgh'' (Some example_upload) None
        example_world)) ''/tmp/whisper_api/abcdefgh.MP3'' = None"
proof -
  have sfx: "suffix (filename example_upload) = ''.MP3''"
    by (simp add: example_upload_def suffix_def path_name_def path_parts_def rfind_def)
  have tp: "joinpath temp_dir (''abcdefgh'' @ suffix (filename example_upload))
      = ''/tmp/whisper_api/abcdefgh.MP3''"
    by (simp add: sfx joinpath_def temp_dir_def)
  have a: "lower (suffix (filename example_upload)) \<in> set valid_formats"
    by (simp add: sfx lower_def lower_char_def valid_formats_def)
  have b: "fst (get_model failing_whisper example_world) = Inr 0"
    by (simp add: get_model_def failing_whisper_def example_world_def)
  have c: "transcribe failing_whisper 0
      ((files example_world)(joinpath temp_dir (''abcdefgh'' @ suffix (filename example_upload))
         \<mapsto> content example_upload))
      (joinpath temp_dir (''abcdefgh'' @ suffix (filename example_upload)))
      = Inl (RuntimeError ''decode failed'')"
    by (simp add: failing_whisper_def)
  have d: "\<not> undeletable example_world ''/tmp/whisper_api/abcdefgh.MP3''"
    by (simp add: example_world_def)
  note th = transcription_error_and_cleanup[OF a b c, of None, unfolded tp]
  from th d show ?thesis
    by simp
qed

text \<open>
  With a library whose transcription raises and a filesystem that refuses removals, the
  error that reaches the caller is the one of the removal.
\<close>

theorem cleanup_failure_counterexample:
  "transcribe failing_whisper 0
      (files (snd (snd (source_step ''abcdefgh'' (Some example_upload) None locked_world))))
      ''/tmp/whisper_api/abcdefgh.MP3''
     = Inl (RuntimeError ''decode failed'')
   \<and> fst (transcribe_audio failing_whisper ''abcdefgh'' (Some example_upload) None locked_world)
     = Inl (PermissionError ''/tmp/whisper_api/abcdefgh.MP3'')
   \<and> files (snd (transcribe_audio failing_whisper ''abcdefgh'' (Some example_upload) None
        locked_world)) ''/tmp/whisper_api/abcdefgh.MP3'' = Some ''RIFF''"
  by (simp add: example_defs eval_defs)

section \<open>The result of a transcription\<close>



section \<open>The model handle\<close>

text \<open>
  C8. In a process that has no model yet and whose load of the variant "base" succeeds,
  the first call of \<^verbatim>\<open>get_model\<close> makes exactly that load, stores the handle and
  returns it. After any number of further calls, the next call returns the same handle and
  leaves the state, and so the record of loads, as it is. A first health check ends in
  that same state, and a second one gives the same answer without changing it.
\<close>

theorem get_model_lazy_singleton:
  assumes fresh: "global_model w = None"
    and load: "load_model cap ''base'' = Inr h"
  shows "\<exists>w1. get_model cap w = (Inr h, w1)
           \<and> trace w1 = trace w @ [Ev_load ''base'']
           \<and> global_model w1 = Some h
           \<and> (\<forall>n. get_model cap (((\<lambda>v. snd (get_model cap v)) ^^ n) w1) = (Inr h, w1))
           \<and> snd (health_check cap w) = w1
           \<and> health_check cap w1 = (fst (health_check cap w), w1)"
proof -
  define w1 where "w1 = w\<lparr>trace := trace w @ [Ev_load ''base''], global_model := Some h\<rparr>"
  have first: "get_model cap w = (Inr h, w1)"
    using fresh load by (simp add: get_model_def Let_def w1_def)
  have loaded: "global_model w1 = Some h"
    by (simp add: w1_def)
  have again: "get_model cap w1 = (Inr h, w1)"
    using loaded by (rule get_model_loaded)
  have iter: "((\<lambda>v. snd (get_model cap v)) ^^ n) w1 = w1" for n
    by (induction n) (simp_all add: again)
  have "trace w1 = trace w @ [Ev_load ''base'']"
    by (simp add: w1_def)
  moreover have "\<forall>n. get_model cap (((\<lambda>v. snd (get_model cap v)) ^^ n) w1) = (Inr h, w1)"
    by (simp add: iter again)
  moreover have "snd (health_check cap w) = w1"
    by (simp add: health_check_def first split: option.splits)
  moreover have "health_check cap w1 = (fst (health_check cap w), w1)"
    by (simp add: health_check_def first again split: option.splits)
  ultimately show ?thesis
    using first loaded by blast
qed

theorem get_model_lazy_singleton_witness:
  "\<exists>w1. get_model example_whisper example_world = (Inr 0, w1)
           \<and> trace w1 = trace example_world @ [Ev_load ''base'']
           \<and> global_model w1 = Some 0
           \<and> (\<forall>n. get_model example_whisper
                     (((\<lambda>v. snd (get_model example_whisper v)) ^^ n) w1) = (Inr 0, w1))
           \<and> snd (health_check example_whisper example_world) = w1
           \<and> health_check example_whisper w1
               = (fst (health_check example_whisper example_world), w1)"
proof -
  have a: "global_model example_world = None"
    by (simp add: example_world_def)
  have b: "load_model example_whisper ''base'' = Inr 0"
    by (simp add: example_whisper_def)
  from get_model_lazy_singleton[OF a b] show ?thesis .
qed

section \<open>A path to an existing file\<close>

text \<open>
  C9, as the code has it. For a request with no upload and a non-empty path at which a
  file exists, the working audio path is that very path and no temporary file is noted
  for removal. The files are afterwards what they were; the only calls made are the load
  of "base" and the transcription of that path, so nothing is opened, written or removed.
  When the model can be obtained, the answer is the one built from what the library's
  transcription returns for that path on the untouched files; when loading the model
  raises, that error is the answer.
\<close>

theorem existing_path_used_directly:
  assumes "p \<noteq> []" and "files w p \<noteq> None"
  shows "source_step cand None (Some p) w = (Inr p, None, w)
       \<and> files (snd (transcribe_audio cap cand None (Some p) w)) = files w
       \<and> (\<exists>evs. trace (snd (transcribe_audio cap cand None (Some p) w)) = trace w @ evs
              \<and> (\<forall>e\<in>set evs. e = Ev_load ''base'' \<or> e = Ev_transcribe p)
              \<and> (\<forall>h. fst (get_model cap w) = Inr h \<longrightarrow> Ev_transcribe p \<in> set evs))
       \<and> (\<forall>h. fst (get_model cap w) = Inr h \<longrightarrow>
             fst (transcribe_audio cap cand None (Some p) w)
               = (case transcribe cap h (files w) p of
                    Inl e \<Rightarrow> Inl e
                  | Inr result \<Rightarrow>
                      (case result ''text'' of
                         None \<Rightarrow> Inl (KeyError ''text'')
                       | Some t \<Rightarrow>
                           (case result ''language'' of
                              None \<Rightarrow> Inl (KeyError ''language'')
                            | Some l \<Rightarrow>
                                Inr \<lparr>transcript = t, language = l,
                                     duration = (case result ''duration'' of
                                                   None \<Rightarrow> PInt 0 | Some d \<Rightarrow> d)\<rparr>))))
       \<and> (\<forall>e. fst (get_model cap w) = Inl e \<longrightarrow>
             fst (transcribe_audio cap cand None (Some p) w) = Inl e)"
proof -
  have src: "source_step cand None (Some p) w = (Inr p, None, w)"
    using assms by (simp add: source_step_def exists_path_def)
  have run: "transcribe_audio cap cand None (Some p) w = transcribe_step cap p w"
    using assms
    by (cases "transcribe_step cap p w")
       (simp add: transcribe_audio_def truthy_def src finally_step_def)
  have "files (snd (transcribe_step cap p w)) = files w"
    using transcribe_step_frame[of cap p w] by simp
  moreover note transcribe_step_trace[of cap p w]
  moreover have "\<forall>h. fst (get_model cap w) = Inr h \<longrightarrow>
             fst (transcribe_step cap p w)
               = (case transcribe cap h (files w) p of
                    Inl e \<Rightarrow> Inl e
                  | Inr result \<Rightarrow>
                      (case result ''text'' of
                         None \<Rightarrow> Inl (KeyError ''text'')
                       | Some t \<Rightarrow>
                           (case result ''language'' of
                              None \<Rightarrow> Inl (KeyError ''language'')
                            | Some l \<Rightarrow>
                                Inr \<lparr>transcript = t, language = l,
                                     duration = (case result ''duration'' of
                                                   None \<Rightarrow> PInt 0 | Some d \<Rightarrow> d)\<rparr>)))"
    using transcribe_step_result[of cap w _ p] by blast
  moreover have "\<forall>e. fst (get_model cap w) = Inl e \<longrightarrow> fst (transcribe_step cap p w) = Inl e"
    using transcribe_step_load_fails[of cap w _ p] by blast
  ultimately show ?thesis
    unfolding run using src by (intro conjI)
qed

theorem existing_path_used_directly_witness:
  "files (snd (transcribe_audio timed_whisper ''abcdefgh'' None (Some ''/srv/audio/a.wav'')
        stored_world)) = files stored_world
   \<and> fst (transcribe_audio timed_whisper ''abcdefgh'' None (Some ''/srv/audio/a.wav'')
        stored_world)
       = Inr \<lparr>transcript = PStr ''hello'', language = PStr ''en'', duration = PFloat 7\<rparr>"
proof -
  have a: "''/srv/audio/a.wav'' \<noteq> []" by simp
  have b: "files stored_world ''/srv/audio/a.wav'' \<noteq> None"
    by (simp add: stored_world_def)
  have gm: "fst (get_model timed_whisper stored_world) = Inr 0"
    by (simp add: get_model_def timed_whisper_def stored_world_def)
  note th = existing_path_used_directly[OF a b, of "''abcdefgh''" timed_whisper]
  from th have f: "files (snd (transcribe_audio timed_whisper ''abcdefgh'' None
      (Some ''/srv/audio/a.wav'') stored_world)) = files stored_world"
    by blast
  from th gm have "fst (transcribe_audio timed_whisper ''abcdefgh'' None
      (Some ''/srv/audio/a.wav'') stored_world)
       = (case transcribe timed_whisper 0 (files stored_world) ''/srv/audio/a.wav'' of
                    Inl e \<Rightarrow> Inl e
                  | Inr result \<Rightarrow>
                      (case result ''text'' of
                         None \<Rightarrow> Inl (KeyError ''text'')
                       | Some t \<Rightarrow>
                           (case result ''language'' of
                              None \<Rightarrow> Inl (KeyError ''language'')
                            | Some l \<Rightarrow>
                                Inr \<lparr>transcript = t, language = l,
                                     duration = (case result ''duration'' of
                                                   None \<Rightarrow> PInt 0 | Some d \<Rightarrow> d)\<rparr>)))"
    by blast
  then have r: "fst (transcribe_audio timed_whisper ''abcdefgh'' None
      (Some ''/srv/audio/a.wav'') stored_world)
       = Inr \<lparr>transcript = PStr ''hello'', language = PStr ''en'', duration = PFloat 7\<rparr>"
    by (simp add: timed_whisper_def)
  from f r show ?thesis
    by (intro conjI)
qed

text \<open>
  When an upload comes with the path, a temporary copy of the upload is made and the
  transcription runs on the copy, not on the path.
\<close>

theorem path_with_upload_counterexample:
  "files stored_world ''/srv/audio/a.wav'' = Some ''RIFF''
   \<and> trace (snd (transcribe_audio example_whisper ''abcdefgh'' (Some example_upload)
        (Some ''/srv/audio/a.wav'') stored_world))
       = [Ev_open ''/tmp/whisper_api/abcdefgh.MP3'',
          Ev_write ''/tmp/whisper_api/abcdefgh.MP3'' ''RIFF'',
          Ev_load ''base'',
          Ev_transcribe ''/tmp/whisper_api/abcdefgh.MP3'',
          Ev_remove ''/tmp/whisper_api/abcdefgh.MP3'']
   \<and> files (snd (snd (source_step ''abcdefgh'' (Some example_upload)
        (Some ''/srv/audio/a.wav'') stored_world))) ''/tmp/whisper_api/abcdefgh.MP3''
       = Some ''RIFF''"
  by (simp add: example_defs eval_defs)

section \<open>The health check\<close>




end
